theory Spec2Isabelle
  imports Complex_Main
begin

section \<open>The state monitor plugin (plugins/state\_monitor.py)\<close>

text \<open>
  A shallow embedding of \<^verbatim>\<open>StateMonitor.execute\<close>, \<^verbatim>\<open>StateMonitor.send_message\<close>,
  \<^verbatim>\<open>StateMonitor.construct_message\<close> and \<^verbatim>\<open>SlackSender.send\<close>.

  Exceptions are values of a sum type (\<open>Inl\<close> is a raised exception), the logger and the
  outbound HTTP requests are an explicit \<open>world\<close> that every effectful function takes and
  returns, and the answer of \<^verbatim>\<open>urllib.request.urlopen\<close> and the floating-point arithmetic
  are parameters of the model.
\<close>

subsection \<open>Python values and the operators the rules use\<close>

text \<open>
  A Python float: a finite double, given by the real number it denotes, an infinity or
  NaN. (The two zeros compare equal and are one value here.)
\<close>

datatype pyfloat = Fin real | PosInf | NegInf | NaN

text \<open>
  The \<^verbatim>\<open>.value\<close> of a \<^verbatim>\<open>DataValue\<close>: a Python int (unbounded), a float, a bool, or
  \<^verbatim>\<open>None\<close>. The limit that recent Python versions put on the number of digits of an int
  that is converted to a string is not part of the model.
\<close>

datatype pyval = PInt int | PFloat pyfloat | PBool bool | PNone

datatype message =
    PowerDropped pyval pyval    \<comment> \<open>"Power has dropped from {power\_pre:.2f} to {power\_now:.2f}."\<close>
  | NoCommunication             \<comment> \<open>"No communication with sensor!"\<close>
  | CriticalFailure pyval       \<comment> \<open>"Critical failure with charge controller. LED state: {state\_now}."\<close>

text \<open>The text built by \<^verbatim>\<open>construct_message\<close>: the header line and the body.\<close>

type_synonym framed = "string \<times> message"

datatype pyerror =
    KeyError string
  | TypeError
  | AttributeError
  | OverflowError
  | FileNotFoundError
  | URLError
  | RuntimeWarning framed

text \<open>A sample maps a field name to the \<^verbatim>\<open>.value\<close> of its \<^verbatim>\<open>DataValue\<close>.\<close>

type_synonym sample = "string \<rightharpoonup> pyval"

text \<open>
  Floating-point arithmetic is a parameter of the model, so that nothing proved here
  depends on how a product is rounded: \<open>float_mul\<close> is the multiplication of two floats
  (IEEE 754 in CPython: the exact product rounded to a double, an infinity on overflow),
  and \<open>float_of_int\<close> is the conversion of an int to a float, \<open>None\<close> when the int is too
  large and the conversion raises \<^verbatim>\<open>OverflowError\<close>.
\<close>

record arith =
  float_mul :: "pyfloat \<Rightarrow> pyfloat \<Rightarrow> pyfloat"
  float_of_int :: "int \<Rightarrow> pyfloat option"

text \<open>\<^verbatim>\<open>bool\<close> is a subclass of \<^verbatim>\<open>int\<close>: \<^verbatim>\<open>True\<close> is 1 and \<^verbatim>\<open>False\<close> is 0.\<close>

fun int_of :: "pyval \<Rightarrow> int option" where
  "int_of (PInt i) = Some i"
| "int_of (PBool b) = Some (if b then 1 else 0)"
| "int_of (PFloat f) = None"
| "int_of PNone = None"

text \<open>The value a number is compared by. Python compares an int with a float exactly,
  without converting the int.\<close>

fun num_of :: "pyval \<Rightarrow> pyfloat option" where
  "num_of (PInt i) = Some (Fin (of_int i))"
| "num_of (PBool b) = Some (Fin (if b then 1 else 0))"
| "num_of (PFloat f) = Some f"
| "num_of PNone = None"

text \<open>Order and equality of floats: NaN is neither below, above nor equal to anything.\<close>

fun f_lt :: "pyfloat \<Rightarrow> pyfloat \<Rightarrow> bool" where
  "f_lt NaN _ = False"
| "f_lt _ NaN = False"
| "f_lt (Fin x) (Fin y) = (x < y)"
| "f_lt (Fin x) PosInf = True"
| "f_lt NegInf (Fin y) = True"
| "f_lt NegInf PosInf = True"
| "f_lt _ _ = False"

fun f_eq :: "pyfloat \<Rightarrow> pyfloat \<Rightarrow> bool" where
  "f_eq (Fin x) (Fin y) = (x = y)"
| "f_eq PosInf PosInf = True"
| "f_eq NegInf NegInf = True"
| "f_eq _ _ = False"

text \<open>\<^verbatim>\<open>float(a)\<close> as the multiplication does it for a mixed product.\<close>

fun to_float :: "arith \<Rightarrow> pyval \<Rightarrow> pyerror + pyfloat" where
  "to_float ar (PFloat f) = Inr f"
| "to_float ar (PInt i) =
     (case float_of_int ar i of None \<Rightarrow> Inl OverflowError | Some f \<Rightarrow> Inr f)"
| "to_float ar (PBool b) =
     (case float_of_int ar (if b then 1 else 0) of None \<Rightarrow> Inl OverflowError | Some f \<Rightarrow> Inr f)"
| "to_float ar PNone = Inl TypeError"

text \<open>\<^verbatim>\<open>a * b\<close>: the exact int when both are ints (or bools); when one is a float, the
  other is converted to a float (\<^verbatim>\<open>OverflowError\<close> for an int that is too large) and the
  floats are multiplied; \<^verbatim>\<open>TypeError\<close> when one is \<^verbatim>\<open>None\<close>.\<close>

definition py_mul :: "arith \<Rightarrow> pyval \<Rightarrow> pyval \<Rightarrow> pyerror + pyval" where
  "py_mul ar a b =
     (case (int_of a, int_of b) of
        (Some i, Some j) \<Rightarrow> Inr (PInt (i * j))
      | _ \<Rightarrow> (case (num_of a, num_of b) of
                (Some _, Some _) \<Rightarrow>
                  (case to_float ar a of
                     Inl x \<Rightarrow> Inl x
                   | Inr f \<Rightarrow>
                       (case to_float ar b of
                          Inl x \<Rightarrow> Inl x
                        | Inr g \<Rightarrow> Inr (PFloat (float_mul ar f g))))
              | _ \<Rightarrow> Inl TypeError))"

text \<open>\<^verbatim>\<open>a < b\<close>, \<^verbatim>\<open>a > b\<close>, \<^verbatim>\<open>a >= b\<close>: numbers compare by value, \<^verbatim>\<open>None\<close> raises.\<close>

definition py_lt :: "pyval \<Rightarrow> pyval \<Rightarrow> pyerror + bool" where
  "py_lt a b =
     (case (num_of a, num_of b) of (Some x, Some y) \<Rightarrow> Inr (f_lt x y) | _ \<Rightarrow> Inl TypeError)"

definition py_gt :: "pyval \<Rightarrow> pyval \<Rightarrow> pyerror + bool" where
  "py_gt a b =
     (case (num_of a, num_of b) of (Some x, Some y) \<Rightarrow> Inr (f_lt y x) | _ \<Rightarrow> Inl TypeError)"

definition py_ge :: "pyval \<Rightarrow> pyval \<Rightarrow> pyerror + bool" where
  "py_ge a b =
     (case (num_of a, num_of b) of
        (Some x, Some y) \<Rightarrow> Inr (f_lt y x \<or> f_eq x y)
      | _ \<Rightarrow> Inl TypeError)"

text \<open>\<^verbatim>\<open>a == b\<close> and \<^verbatim>\<open>a != b\<close> never raise: numbers compare by value, \<^verbatim>\<open>None\<close> equals
  only itself.\<close>

definition py_eq :: "pyval \<Rightarrow> pyval \<Rightarrow> bool" where
  "py_eq a b =
     (case (num_of a, num_of b) of
        (Some x, Some y) \<Rightarrow> f_eq x y
      | (None, None) \<Rightarrow> True
      | _ \<Rightarrow> False)"

definition py_ne :: "pyval \<Rightarrow> pyval \<Rightarrow> bool" where
  "py_ne a b = (\<not> py_eq a b)"

text \<open>Truth value of an object in a condition.\<close>

fun truthy :: "pyval \<Rightarrow> bool" where
  "truthy (PInt i) = (i \<noteq> 0)"
| "truthy (PFloat f) = (f \<noteq> Fin 0)"
| "truthy (PBool b) = b"
| "truthy PNone = False"

text \<open>The format \<^verbatim>\<open>{x:.2f}\<close> of a number: an int is converted to a float first, which
  raises \<^verbatim>\<open>OverflowError\<close> when it is too large. Only whether it raises is modelled.\<close>

fun format_2f :: "arith \<Rightarrow> pyval \<Rightarrow> pyerror + unit" where
  "format_2f ar (PFloat f) = Inr ()"
| "format_2f ar (PInt i) =
     (case float_of_int ar i of None \<Rightarrow> Inl OverflowError | Some _ \<Rightarrow> Inr ())"
| "format_2f ar (PBool b) =
     (case float_of_int ar (if b then 1 else 0) of None \<Rightarrow> Inl OverflowError | Some _ \<Rightarrow> Inr ())"
| "format_2f ar PNone = Inl TypeError"

subsection \<open>The logger, the network and the sender\<close>

datatype log_record =
    Info_msg message                 \<comment> \<open>\<^verbatim>\<open>self.logger.info(msg)\<close> of a rule\<close>
  | Warning_send_failed framed       \<comment> \<open>"Sending to slack failed. Message: ..."\<close>
  | Error_evaluating pyerror         \<comment> \<open>"\%s evaluating in \%s on step \%s: \%s"\<close>
  | Info_error_details               \<comment> \<open>"Error details:"\<close>
  | Info_data string sample          \<comment> \<open>"\%s data: \%r"\<close>
  | Error_initializing pyerror       \<comment> \<open>"... initializing Slack sender: ..."\<close>

text \<open>What \<^verbatim>\<open>urlopen\<close> does: it raises, or it returns a response with a status.\<close>

datatype urlopen_result = Raises | Response int

text \<open>The records logged so far and the request bodies handed to \<^verbatim>\<open>urlopen\<close> so far.\<close>

record world =
  log :: "log_record list"
  requests :: "framed list"

text \<open>
  The surroundings of the step: the sensor name of the unit configuration
  (\<^verbatim>\<open>f"{METADATA['name']}{UNIT_CONFIG['number']:02d}"\<close>), the network, which answers
  the n-th call of \<^verbatim>\<open>urlopen\<close> (counted from 0), and the floating-point arithmetic.
\<close>

record env =
  sensor_name :: string
  urlopen :: "nat \<Rightarrow> urlopen_result"
  floats :: arith

text \<open>\<^verbatim>\<open>SlackSender\<close>: the request URL and whether \<^verbatim>\<open>self.logger\<close> is truthy.\<close>

record slack_sender =
  slack_url :: string
  logger :: bool

definition info :: "log_record \<Rightarrow> world \<Rightarrow> world" where
  "info r w = w\<lparr>log := log w @ [r]\<rparr>"

definition send :: "env \<Rightarrow> slack_sender \<Rightarrow> framed \<Rightarrow> world \<Rightarrow> (pyerror + unit) \<times> world" where
  "send e sd msg w =
     (let w1 = w\<lparr>requests := requests w @ [msg]\<rparr> in
      case urlopen e (length (requests w)) of
        Raises \<Rightarrow> (Inl URLError, w1)
      | Response status \<Rightarrow>
          if status \<noteq> 200 then
            (if logger sd then (Inr (), info (Warning_send_failed msg) w1)
             else (Inl (RuntimeWarning msg), w1))
          else (Inr (), w1))"

subsection \<open>The monitor\<close>

record monitor =
  previous_data :: "sample option"
  power_delim :: pyval
  sender :: "slack_sender option"

text \<open>
  \<^verbatim>\<open>StateMonitor.__init__\<close>. The outcome of constructing the \<^verbatim>\<open>SlackSender\<close> (which reads
  the key file) is the parameter \<open>slack\<close>; a failed construction is logged and leaves the
  sender unset.
\<close>

definition init :: "string option \<Rightarrow> pyval \<Rightarrow> (pyerror + slack_sender) \<Rightarrow> world \<Rightarrow> monitor \<times> world" where
  "init method delim slack w =
     (let m = \<lparr>previous_data = None, power_delim = delim, sender = None\<rparr> in
      if method = Some ''slack'' then
        (case slack of
           Inr sd \<Rightarrow> (m\<lparr>sender := Some sd\<rparr>, w)
         | Inl e \<Rightarrow> (m, info Info_error_details (info (Error_initializing e) w)))
      else (m, w))"

definition construct_message :: "env \<Rightarrow> message \<Rightarrow> framed" where
  "construct_message e msg = (''Message from sensor '' @ sensor_name e, msg)"

definition send_message :: "env \<Rightarrow> monitor \<Rightarrow> message \<Rightarrow> world \<Rightarrow> (pyerror + unit) \<times> world" where
  "send_message e m msg w =
     (let msg' = construct_message e msg in
      case sender m of
        None \<Rightarrow> (Inr (), w)
      | Some sd \<Rightarrow> send e sd msg' w)"

text \<open>\<^verbatim>\<open>data[key].value\<close>: \<^verbatim>\<open>None\<close> is not subscriptable, a missing key raises.\<close>

definition subscript :: "sample option \<Rightarrow> string \<Rightarrow> pyerror + pyval" where
  "subscript data key =
     (case data of
        None \<Rightarrow> Inl TypeError
      | Some s \<Rightarrow> (case s key of None \<Rightarrow> Inl (KeyError key) | Some v \<Rightarrow> Inr v))"

text \<open>The helper \<^verbatim>\<open>now_then\<close>: the current and the previous value of one field.\<close>

definition now_then :: "sample option \<Rightarrow> sample option \<Rightarrow> string \<Rightarrow> pyerror + (pyval \<times> pyval)" where
  "now_then input_data previous key =
     (case subscript input_data key of
        Inl e \<Rightarrow> Inl e
      | Inr now \<Rightarrow>
          (case subscript previous key of
             Inl e \<Rightarrow> Inl e
           | Inr pre \<Rightarrow> Inr (now, pre)))"

text \<open>The body of a rule that fires: log the message, then send it.\<close>

definition notify :: "env \<Rightarrow> monitor \<Rightarrow> message \<Rightarrow> world \<Rightarrow> (pyerror + unit) \<times> world" where
  "notify e m msg w = send_message e m msg (info (Info_msg msg) w)"

text \<open>Lines 102-110: power drops.\<close>

definition power_values :: "arith \<Rightarrow> monitor \<Rightarrow> sample option \<Rightarrow> pyerror + (pyval \<times> pyval)" where
  "power_values ar m input_data =
     (case now_then input_data (previous_data m) ''adc_vl_f'' of
        Inl e \<Rightarrow> Inl e
      | Inr (load_now, load_pre) \<Rightarrow>
     (case now_then input_data (previous_data m) ''adc_il_f'' of
        Inl e \<Rightarrow> Inl e
      | Inr (curr_now, curr_pre) \<Rightarrow>
     (case py_mul ar load_now curr_now of
        Inl e \<Rightarrow> Inl e
      | Inr power_now \<Rightarrow>
     (case py_mul ar load_pre curr_pre of
        Inl e \<Rightarrow> Inl e
      | Inr power_pre \<Rightarrow> Inr (power_now, power_pre)))))"

text \<open>\<^verbatim>\<open>(power_now < self.power_delim) and (power_pre > self.power_delim)\<close>; the second
  comparison is evaluated only when the first is true.\<close>

definition power_test :: "pyval \<Rightarrow> pyval \<Rightarrow> pyval \<Rightarrow> pyerror + bool" where
  "power_test delim power_now power_pre =
     (case py_lt power_now delim of
        Inl e \<Rightarrow> Inl e
      | Inr c \<Rightarrow> if c then py_gt power_pre delim else Inr False)"

text \<open>The f-string of line 108 formats \<^verbatim>\<open>power_pre\<close>, then \<^verbatim>\<open>power_now\<close>, before anything
  is logged.\<close>

definition power_format :: "arith \<Rightarrow> pyval \<Rightarrow> pyval \<Rightarrow> pyerror + unit" where
  "power_format ar power_now power_pre =
     (case format_2f ar power_pre of
        Inl x \<Rightarrow> Inl x
      | Inr _ \<Rightarrow> format_2f ar power_now)"

definition power_rule :: "env \<Rightarrow> monitor \<Rightarrow> sample option \<Rightarrow> world \<Rightarrow> (pyerror + unit) \<times> world" where
  "power_rule e m input_data w =
     (case power_values (floats e) m input_data of
        Inl x \<Rightarrow> (Inl x, w)
      | Inr (power_now, power_pre) \<Rightarrow>
          (case power_test (power_delim m) power_now power_pre of
             Inl x \<Rightarrow> (Inl x, w)
           | Inr c \<Rightarrow>
               if c then
                 (case power_format (floats e) power_now power_pre of
                    Inl x \<Rightarrow> (Inl x, w)
                  | Inr _ \<Rightarrow> notify e m (PowerDropped power_pre power_now) w)
               else (Inr (), w)))"

text \<open>Lines 112-118: sensor communication.\<close>

definition comm_rule :: "env \<Rightarrow> monitor \<Rightarrow> sample option \<Rightarrow> world \<Rightarrow> (pyerror + unit) \<times> world" where
  "comm_rule e m input_data w =
     (case now_then input_data (previous_data m) ''ping'' of
        Inl x \<Rightarrow> (Inl x, w)
      | Inr (comm_now, comm_pre) \<Rightarrow>
          if truthy comm_now \<and> \<not> truthy comm_pre then notify e m NoCommunication w
          else (Inr (), w))"

text \<open>Lines 131-137: LED state.\<close>

definition led_test :: "pyval \<Rightarrow> pyval \<Rightarrow> pyerror + bool" where
  "led_test state_now state_pre =
     (case py_ge state_now (PInt 12) of
        Inl e \<Rightarrow> Inl e
      | Inr c \<Rightarrow> if c then Inr (py_ne state_now state_pre) else Inr False)"

definition led_rule :: "env \<Rightarrow> monitor \<Rightarrow> sample option \<Rightarrow> world \<Rightarrow> (pyerror + unit) \<times> world" where
  "led_rule e m input_data w =
     (case now_then input_data (previous_data m) ''led_state'' of
        Inl x \<Rightarrow> (Inl x, w)
      | Inr (state_now, state_pre) \<Rightarrow>
          (case led_test state_now state_pre of
             Inl x \<Rightarrow> (Inl x, w)
           | Inr c \<Rightarrow>
               if c then notify e m (CriticalFailure state_now) w
               else (Inr (), w)))"

text \<open>The body of the \<^verbatim>\<open>try\<close> block: the three rules in order; the first exception
  leaves the block.\<close>

definition rules :: "env \<Rightarrow> monitor \<Rightarrow> sample option \<Rightarrow> world \<Rightarrow> (pyerror + unit) \<times> world" where
  "rules e m input_data w =
     (case power_rule e m input_data w of
        (Inl x, w1) \<Rightarrow> (Inl x, w1)
      | (Inr _, w1) \<Rightarrow>
     (case comm_rule e m input_data w1 of
        (Inl x, w2) \<Rightarrow> (Inl x, w2)
      | (Inr _, w2) \<Rightarrow> led_rule e m input_data w2))"

text \<open>One pass of the loop in the \<^verbatim>\<open>except\<close> block: \<^verbatim>\<open>data.items()\<close> raises
  \<^verbatim>\<open>AttributeError\<close> when \<open>data\<close> is \<^verbatim>\<open>None\<close>.\<close>

definition dump_data :: "string \<Rightarrow> sample option \<Rightarrow> world \<Rightarrow> (pyerror + unit) \<times> world" where
  "dump_data pretty_name data w =
     (case data of
        None \<Rightarrow> (Inl AttributeError, w)
      | Some s \<Rightarrow> (Inr (), info (Info_data pretty_name s) w))"

text \<open>The \<^verbatim>\<open>except Exception\<close> block, lines 140-149.\<close>

definition handler :: "pyerror \<Rightarrow> monitor \<Rightarrow> sample option \<Rightarrow> world \<Rightarrow> (pyerror + unit) \<times> world" where
  "handler x m input_data w =
     (let w1 = info Info_error_details (info (Error_evaluating x) w) in
      case dump_data ''Current'' input_data w1 of
        (Inl x', w2) \<Rightarrow> (Inl x', w2)
      | (Inr _, w2) \<Rightarrow> dump_data ''Previous'' (previous_data m) w2)"

text \<open>Lines 89-91, the first iteration: an unset previous sample becomes the input.\<close>

definition baseline :: "monitor \<Rightarrow> sample option \<Rightarrow> monitor" where
  "baseline m input_data =
     (if previous_data m = None then m\<lparr>previous_data := input_data\<rparr> else m)"

text \<open>
  \<^verbatim>\<open>StateMonitor.execute\<close>. The result is the exception that leaves \<^verbatim>\<open>execute\<close> or the
  returned value, with the monitor and the world as they are at that moment.
\<close>

definition execute ::
  "env \<Rightarrow> monitor \<Rightarrow> world \<Rightarrow> sample option \<Rightarrow> (pyerror + sample option) \<times> monitor \<times> world" where
  "execute e m w input_data =
     (let m1 = baseline m input_data in
      case rules e m1 input_data w of
        (Inr _, w1) \<Rightarrow> (Inr input_data, m1\<lparr>previous_data := input_data\<rparr>, w1)
      | (Inl x, w1) \<Rightarrow>
          (case handler x m1 input_data w1 of
             (Inl x', w2) \<Rightarrow> (Inl x', m1, w2)
           | (Inr _, w2) \<Rightarrow> (Inr input_data, m1\<lparr>previous_data := input_data\<rparr>, w2)))"

text \<open>Consecutive ticks of the pipeline; an exception that leaves \<^verbatim>\<open>execute\<close> ends the run.\<close>

fun run :: "env \<Rightarrow> monitor \<Rightarrow> world \<Rightarrow> sample option list \<Rightarrow> pyerror option \<times> monitor \<times> world" where
  "run e m w [] = (None, m, w)"
| "run e m w (d # ds) =
     (case execute e m w d of
        (Inl x, m', w') \<Rightarrow> (Some x, m', w')
      | (Inr _, m', w') \<Rightarrow> run e m' w' ds)"

subsection \<open>Observing one tick\<close>

text \<open>The messages of the rules that fired between two worlds, in order, and the
  request bodies handed to \<^verbatim>\<open>urlopen\<close> between them.\<close>

fun fired_in :: "log_record list \<Rightarrow> message list" where
  "fired_in [] = []"
| "fired_in (Info_msg msg # rs) = msg # fired_in rs"
| "fired_in (_ # rs) = fired_in rs"

definition fired :: "world \<Rightarrow> world \<Rightarrow> message list" where
  "fired w w' = fired_in (drop (length (log w)) (log w'))"

definition posted :: "world \<Rightarrow> world \<Rightarrow> framed list" where
  "posted w w' = drop (length (requests w)) (requests w')"

fun is_power_drop :: "message \<Rightarrow> bool" where
  "is_power_drop (PowerDropped _ _) = True"
| "is_power_drop _ = False"

fun is_critical :: "message \<Rightarrow> bool" where
  "is_critical (CriticalFailure _) = True"
| "is_critical _ = False"

text \<open>The power of a sample, \<^verbatim>\<open>adc_vl_f.value * adc_il_f.value\<close> as the code computes it
  with \<open>py_mul\<close>, when both fields are there and the product does not raise.\<close>

definition sample_power :: "arith \<Rightarrow> sample \<Rightarrow> pyval option" where
  "sample_power ar s =
     (case (s ''adc_vl_f'', s ''adc_il_f'') of
        (Some v, Some c) \<Rightarrow> (case py_mul ar v c of Inl _ \<Rightarrow> None | Inr p \<Rightarrow> Some p)
      | _ \<Rightarrow> None)"

subsection \<open>Auxiliary notions\<close>

text \<open>A later world: the log and the list of requests have only grown.\<close>

definition extends :: "world \<Rightarrow> world \<Rightarrow> bool" where
  "extends w w' = ((\<exists>l. log w' = log w @ l) \<and> (\<exists>q. requests w' = requests w @ q))"

text \<open>The messages each rule logs on a tick, as a function of the monitor and the input
  alone: what the rule computes before it hands the message to the sender.\<close>

definition power_events :: "arith \<Rightarrow> monitor \<Rightarrow> sample option \<Rightarrow> message list" where
  "power_events ar m input_data =
     (case power_values ar m input_data of
        Inl _ \<Rightarrow> []
      | Inr (power_now, power_pre) \<Rightarrow>
          (case power_test (power_delim m) power_now power_pre of
             Inl _ \<Rightarrow> []
           | Inr c \<Rightarrow>
               if c then
                 (case power_format ar power_now power_pre of
                    Inl _ \<Rightarrow> []
                  | Inr _ \<Rightarrow> [PowerDropped power_pre power_now])
               else []))"

definition comm_events :: "monitor \<Rightarrow> sample option \<Rightarrow> message list" where
  "comm_events m input_data =
     (case now_then input_data (previous_data m) ''ping'' of
        Inl _ \<Rightarrow> []
      | Inr (comm_now, comm_pre) \<Rightarrow>
          if truthy comm_now \<and> \<not> truthy comm_pre then [NoCommunication] else [])"

definition led_events :: "monitor \<Rightarrow> sample option \<Rightarrow> message list" where
  "led_events m input_data =
     (case now_then input_data (previous_data m) ''led_state'' of
        Inl _ \<Rightarrow> []
      | Inr (state_now, state_pre) \<Rightarrow>
          (case led_test state_now state_pre of
             Inl _ \<Rightarrow> []
           | Inr c \<Rightarrow> if c then [CriticalFailure state_now] else []))"

text \<open>The request bodies that go with a list of logged messages: none without a sender.\<close>

definition frames :: "env \<Rightarrow> monitor \<Rightarrow> message list \<Rightarrow> framed list" where
  "frames e m msgs = (if sender m = None then [] else map (construct_message e) msgs)"

text \<open>How many power-drop messages were logged, and how many were handed to
  \<^verbatim>\<open>urlopen\<close>, between two worlds.\<close>

definition power_drops :: "world \<Rightarrow> world \<Rightarrow> nat" where
  "power_drops w w' = length (filter is_power_drop (fired w w'))"

definition power_posts :: "world \<Rightarrow> world \<Rightarrow> nat" where
  "power_posts w w' = length (filter (\<lambda>f. is_power_drop (snd f)) (posted w w'))"




text \<open>The sample the rules compare the input with: the stored one, or the input itself on
  the first tick.\<close>

definition prev_sample :: "monitor \<Rightarrow> sample \<Rightarrow> sample" where
  "prev_sample m s = (case previous_data m of None \<Rightarrow> s | Some p \<Rightarrow> p)"


subsection \<open>Concrete ticks\<close>

text \<open>
  Arithmetics for the concrete ticks. Infinities and NaN multiply as in IEEE 754; the
  product of two finite floats is the exact product passed through \<open>rnd\<close>. \<open>plain_arith\<close>
  rounds nothing, which is what doubles do on the small dyadic values of the samples
  below; \<open>round52_arith\<close> rounds to 52 binary places, which is what doubles do for a
  product between 1 and 2 that is not halfway between two of them. An int converts to the
  float of its own value, which is what doubles do up to \<open>2 ^ 53\<close>, and not at all from
  \<open>2 ^ 1024\<close> on.
\<close>

fun f_sign :: "pyfloat \<Rightarrow> int" where
  "f_sign (Fin x) = (if 0 < x then 1 else if x < 0 then - 1 else 0)"
| "f_sign PosInf = 1"
| "f_sign NegInf = - 1"
| "f_sign NaN = 0"

fun mul_with :: "(real \<Rightarrow> pyfloat) \<Rightarrow> pyfloat \<Rightarrow> pyfloat \<Rightarrow> pyfloat" where
  "mul_with rnd (Fin x) (Fin y) = rnd (x * y)"
| "mul_with rnd a b =
     (if f_sign a * f_sign b = 0 then NaN
      else if 0 < f_sign a * f_sign b then PosInf else NegInf)"

definition int_to_float :: "int \<Rightarrow> pyfloat option" where
  "int_to_float i = (if \<bar>i\<bar> < 2 ^ 1024 then Some (Fin (of_int i)) else None)"

definition round52 :: "real \<Rightarrow> pyfloat" where
  "round52 x = Fin (of_int (round (x * 2 ^ 52)) / 2 ^ 52)"

definition plain_arith :: arith where
  "plain_arith = \<lparr>float_mul = mul_with Fin, float_of_int = int_to_float\<rparr>"

definition round52_arith :: arith where
  "round52_arith = \<lparr>float_mul = mul_with round52, float_of_int = int_to_float\<rparr>"

text \<open>Networks: every request answered with 200; the first request raises.\<close>

definition always_ok :: "nat \<Rightarrow> urlopen_result" where
  "always_ok n = Response 200"

definition first_raises :: "nat \<Rightarrow> urlopen_result" where
  "first_raises n = (if n = 0 then Raises else Response 200)"

definition env_ok :: env where
  "env_ok = \<lparr>sensor_name = ''hamma01'', urlopen = always_ok, floats = plain_arith\<rparr>"

definition env_down :: env where
  "env_down = \<lparr>sensor_name = ''hamma01'', urlopen = first_raises, floats = plain_arith\<rparr>"

text \<open>A network that answers and an arithmetic that rounds.\<close>

definition env_round :: env where
  "env_round = \<lparr>sensor_name = ''hamma01'', urlopen = always_ok, floats = round52_arith\<rparr>"

text \<open>An empty log and no request yet.\<close>

definition world0 :: world where
  "world0 = \<lparr>log = [], requests = []\<rparr>"

text \<open>A sender whose logger is attached.\<close>

definition slack1 :: slack_sender where
  "slack1 = \<lparr>slack_url = ''https://hooks.slack.com/services/T0/B0/k0'', logger = True\<rparr>"

text \<open>Samples with power 2, 0.5 and 0.25; from \<open>sample_a\<close> to \<open>sample_b\<close> the power drops
  through 1, the ping goes from 0 to 1 and the LED state from 5 to 12.\<close>

definition sample_a :: sample where
  "sample_a = [''adc_vl_f'' \<mapsto> PFloat (Fin 2), ''adc_il_f'' \<mapsto> PFloat (Fin 1), ''ping'' \<mapsto> PInt 0,
               ''led_state'' \<mapsto> PInt 5]"

definition sample_b :: sample where
  "sample_b = [''adc_vl_f'' \<mapsto> PFloat (Fin 0.5), ''adc_il_f'' \<mapsto> PFloat (Fin 1), ''ping'' \<mapsto> PInt 1,
               ''led_state'' \<mapsto> PInt 12]"

definition sample_c :: sample where
  "sample_c = [''adc_vl_f'' \<mapsto> PFloat (Fin 0.25), ''adc_il_f'' \<mapsto> PFloat (Fin 1), ''ping'' \<mapsto> PInt 1,
               ''led_state'' \<mapsto> PInt 12]"

text \<open>A monitor whose previous sample is \<open>sample_a\<close>, with the default threshold 1.\<close>

definition monitor_a :: monitor where
  "monitor_a = \<lparr>previous_data = Some sample_a, power_delim = PInt 1, sender = Some slack1\<rparr>"

text \<open>The double nearest to one tenth, a sample with 10.0 V and that current, whose
  product 1 + 2^-54 is rounded to 1.0, and a monitor that holds it as previous sample.\<close>

definition tenth :: pyfloat where
  "tenth = Fin (3602879701896397 / 36028797018963968)"

definition sample_r :: sample where
  "sample_r = [''adc_vl_f'' \<mapsto> PFloat (Fin 10), ''adc_il_f'' \<mapsto> PFloat tenth, ''ping'' \<mapsto> PInt 0,
               ''led_state'' \<mapsto> PInt 5]"

definition monitor_r :: monitor where
  "monitor_r = \<lparr>previous_data = Some sample_r, power_delim = PInt 1, sender = Some slack1\<rparr>"

text \<open>A sample whose power is exactly 1.\<close>

definition sample_on :: sample where
  "sample_on = [''adc_vl_f'' \<mapsto> PFloat (Fin 0.5), ''adc_il_f'' \<mapsto> PInt 2, ''ping'' \<mapsto> PInt 0,
               ''led_state'' \<mapsto> PInt 5]"

text \<open>Samples without the fields of the power rule, and the world after a tick on them.\<close>

definition bare_pre :: sample where
  "bare_pre = [''ping'' \<mapsto> PInt 0, ''led_state'' \<mapsto> PInt 5]"

definition bare_now :: sample where
  "bare_now = [''ping'' \<mapsto> PInt 1, ''led_state'' \<mapsto> PInt 12]"

definition monitor_bare :: monitor where
  "monitor_bare = \<lparr>previous_data = Some bare_pre, power_delim = PInt 1, sender = None\<rparr>"

definition world_bare :: world where
  "world_bare = \<lparr>log = [Error_evaluating (KeyError ''adc_vl_f''), Info_error_details,
       Info_data ''Current'' bare_now, Info_data ''Previous'' bare_pre], requests = []\<rparr>"

text \<open>A freshly constructed monitor.\<close>

definition monitor_new :: monitor where
  "monitor_new = fst (init (Some ''slack'') (PInt 1) (Inr slack1) world0)"

text \<open>Samples that hold only \<^verbatim>\<open>ping\<close>, and samples that lack it.\<close>

definition ping_pre :: sample where
  "ping_pre = [''ping'' \<mapsto> PInt 0]"

definition ping_now :: sample where
  "ping_now = [''ping'' \<mapsto> PInt 1]"

definition monitor_ping :: monitor where
  "monitor_ping = \<lparr>previous_data = Some ping_pre, power_delim = PInt 1, sender = None\<rparr>"

definition led_pre :: sample where
  "led_pre = [''adc_vl_f'' \<mapsto> PFloat (Fin 2), ''adc_il_f'' \<mapsto> PFloat (Fin 1), ''led_state'' \<mapsto> PInt 5]"

definition led_now :: sample where
  "led_now = [''adc_vl_f'' \<mapsto> PFloat (Fin 2), ''adc_il_f'' \<mapsto> PFloat (Fin 1), ''led_state'' \<mapsto> PInt 12]"

definition monitor_led :: monitor where
  "monitor_led = \<lparr>previous_data = Some led_pre, power_delim = PInt 1, sender = None\<rparr>"

text \<open>A network that answers every request with 201.\<close>

definition always_201 :: "nat \<Rightarrow> urlopen_result" where
  "always_201 n = Response 201"

definition env_201 :: env where
  "env_201 = \<lparr>sensor_name = ''hamma01'', urlopen = always_201, floats = plain_arith\<rparr>"

definition frame0 :: framed where
  "frame0 = (''Message from sensor hamma01'', NoCommunication)"

text \<open>Samples that differ in one field only, for replaying the sequences of the
  specification.\<close>

definition ping_sample :: "int \<Rightarrow> sample" where
  "ping_sample v = [''adc_vl_f'' \<mapsto> PFloat (Fin 2), ''adc_il_f'' \<mapsto> PFloat (Fin 1), ''ping'' \<mapsto> PInt v,
                    ''led_state'' \<mapsto> PInt 5]"

definition led_sample :: "int \<Rightarrow> sample" where
  "led_sample v = [''adc_vl_f'' \<mapsto> PFloat (Fin 2), ''adc_il_f'' \<mapsto> PFloat (Fin 1), ''ping'' \<mapsto> PInt 0,
                   ''led_state'' \<mapsto> PInt v]"

text \<open>A sender whose logger is falsy.\<close>

definition slack_quiet :: slack_sender where
  "slack_quiet = \<lparr>slack_url = ''https://hooks.slack.com/services/T0/B0/k0'', logger = False\<rparr>"


section \<open>Properties\<close>

subsection \<open>Worlds only grow\<close>

text \<open>Every effectful function appends to the log and to the requests, so what a tick
  logs is the concatenation of what its steps log.\<close>

lemma extends_refl: "extends w w" by (simp add: extends_def)

lemma extends_trans: "extends w w1 \<Longrightarrow> extends w1 w2 \<Longrightarrow> extends w w2"
  by (auto simp: extends_def)

lemma fired_in_append: "fired_in (xs @ ys) = fired_in xs @ fired_in ys"
  by (induction xs rule: fired_in.induct) simp_all

lemma fired_trans: "extends w w1 \<Longrightarrow> extends w1 w2 \<Longrightarrow> fired w w2 = fired w w1 @ fired w1 w2"
  by (auto simp: extends_def fired_def fired_in_append)

lemma posted_trans: "extends w w1 \<Longrightarrow> extends w1 w2 \<Longrightarrow> posted w w2 = posted w w1 @ posted w1 w2"
  by (auto simp: extends_def posted_def)

lemma fired_same: "fired w w = []" by (simp add: fired_def)

lemma posted_same: "posted w w = []" by (simp add: posted_def)

lemma extends_info: "extends w (info r w)" by (simp add: extends_def info_def)

lemma send_extends: "extends w (snd (send e sd msg w))"
  by (simp add: send_def Let_def extends_def info_def split: urlopen_result.splits)

lemma send_fired: "fired w (snd (send e sd msg w)) = []"
  by (simp add: send_def Let_def fired_def info_def split: urlopen_result.splits)

lemma send_posted: "posted w (snd (send e sd msg w)) = [msg]"
  by (simp add: send_def Let_def posted_def info_def split: urlopen_result.splits)

lemma notify_extends: "extends w (snd (notify e m msg w))"
  by (auto simp: notify_def send_message_def Let_def extends_info split: option.splits
      intro: extends_trans [OF extends_info send_extends])

lemma notify_fired: "fired w (snd (notify e m msg w)) = [msg]"
proof (cases "sender m")
  case None
  then show ?thesis by (simp add: notify_def send_message_def fired_def info_def)
next
  case (Some sd)
  have "fired w (snd (send e sd (construct_message e msg) (info (Info_msg msg) w)))
      = fired w (info (Info_msg msg) w) @ []"
    using fired_trans [OF extends_info send_extends] send_fired by metis
  then show ?thesis using Some by (simp add: notify_def send_message_def fired_def info_def)
qed

lemma notify_posted:
  "posted w (snd (notify e m msg w)) = (if sender m = None then [] else [construct_message e msg])"
proof (cases "sender m")
  case None
  then show ?thesis by (simp add: notify_def send_message_def posted_def info_def)
next
  case (Some sd)
  have "posted w (snd (send e sd (construct_message e msg) (info (Info_msg msg) w)))
      = posted w (info (Info_msg msg) w) @ [construct_message e msg]"
    using posted_trans [OF extends_info send_extends] send_posted by metis
  then show ?thesis using Some by (simp add: notify_def send_message_def posted_def info_def)
qed

subsection \<open>What each rule logs and sends\<close>

lemma frames_Nil: "frames e m [] = []" by (simp add: frames_def)

lemma frames_append: "frames e m (xs @ ys) = frames e m xs @ frames e m ys"
  by (simp add: frames_def)

lemma notify_posted_frames: "posted w (snd (notify e m msg w)) = frames e m [msg]"
  by (simp add: notify_posted frames_def)

lemma power_rule_extends: "extends w (snd (power_rule e m d w))"
  by (simp add: power_rule_def extends_refl notify_extends split: sum.splits prod.splits)

lemma power_rule_fired: "fired w (snd (power_rule e m d w)) = power_events (floats e) m d"
  by (simp add: power_rule_def power_events_def fired_same notify_fired
      split: sum.splits prod.splits)

lemma power_rule_posted: "posted w (snd (power_rule e m d w)) = frames e m (power_events (floats e) m d)"
  by (simp add: power_rule_def power_events_def posted_same notify_posted_frames frames_Nil
      split: sum.splits prod.splits)

lemma comm_rule_extends: "extends w (snd (comm_rule e m d w))"
  by (simp add: comm_rule_def extends_refl notify_extends split: sum.splits prod.splits)

lemma comm_rule_fired: "fired w (snd (comm_rule e m d w)) = comm_events m d"
  by (simp add: comm_rule_def comm_events_def fired_same notify_fired
      split: sum.splits prod.splits)

lemma comm_rule_posted: "posted w (snd (comm_rule e m d w)) = frames e m (comm_events m d)"
  by (simp add: comm_rule_def comm_events_def posted_same notify_posted_frames frames_Nil
      split: sum.splits prod.splits)

lemma led_rule_extends: "extends w (snd (led_rule e m d w))"
  by (simp add: led_rule_def extends_refl notify_extends split: sum.splits prod.splits)

lemma led_rule_fired: "fired w (snd (led_rule e m d w)) = led_events m d"
  by (simp add: led_rule_def led_events_def fired_same notify_fired
      split: sum.splits prod.splits)

lemma led_rule_posted: "posted w (snd (led_rule e m d w)) = frames e m (led_events m d)"
  by (simp add: led_rule_def led_events_def posted_same notify_posted_frames frames_Nil
      split: sum.splits prod.splits)

subsection \<open>The try block and the tick\<close>

text \<open>A rule is evaluated only when the rules before it returned.\<close>

lemma rules_unfold:
  "rules e m d w =
     (let r1 = power_rule e m d w in
      if isl (fst r1) then r1
      else let r2 = comm_rule e m d (snd r1) in
           if isl (fst r2) then r2 else led_rule e m d (snd r2))"
  by (simp add: rules_def Let_def split: prod.splits sum.splits)

lemma rules_extends: "extends w (snd (rules e m d w))"
  unfolding rules_unfold Let_def
  by (auto intro: power_rule_extends extends_trans [OF power_rule_extends comm_rule_extends]
      extends_trans [OF extends_trans [OF power_rule_extends comm_rule_extends] led_rule_extends])

lemma rules_fired:
  "fired w (snd (rules e m d w)) =
     power_events (floats e) m d @
     (if isl (fst (power_rule e m d w)) then []
      else comm_events m d @
        (if isl (fst (comm_rule e m d (snd (power_rule e m d w)))) then []
         else led_events m d))"
  unfolding rules_unfold Let_def
  by (simp add: power_rule_fired comm_rule_fired led_rule_fired
      fired_trans [OF power_rule_extends comm_rule_extends]
      fired_trans [OF extends_trans [OF power_rule_extends comm_rule_extends] led_rule_extends])

lemma rules_posted:
  "posted w (snd (rules e m d w)) =
     frames e m (power_events (floats e) m d @
     (if isl (fst (power_rule e m d w)) then []
      else comm_events m d @
        (if isl (fst (comm_rule e m d (snd (power_rule e m d w)))) then []
         else led_events m d)))"
  unfolding rules_unfold Let_def
  by (simp add: power_rule_posted comm_rule_posted led_rule_posted frames_append frames_Nil
      posted_trans [OF power_rule_extends comm_rule_extends]
      posted_trans [OF extends_trans [OF power_rule_extends comm_rule_extends] led_rule_extends])

lemma handler_world:
  "extends w (snd (handler x m d w)) \<and> fired w (snd (handler x m d w)) = []
     \<and> posted w (snd (handler x m d w)) = []"
  by (auto simp: handler_def dump_data_def Let_def info_def extends_def fired_def posted_def
      split: option.splits)

lemma execute_world:
  "extends w (snd (snd (execute e m w d))) \<and>
   fired w (snd (snd (execute e m w d))) = fired w (snd (rules e (baseline m d) d w)) \<and>
   posted w (snd (snd (execute e m w d))) = posted w (snd (rules e (baseline m d) d w))"
proof (cases "rules e (baseline m d) d w")
  case (Pair r w1)
  have ext: "extends w w1" using rules_extends [of w e "baseline m d" d] Pair by simp
  show ?thesis
  proof (cases r)
    case (Inr u)
    then show ?thesis using Pair ext by (simp add: execute_def Let_def)
  next
    case (Inl x)
    obtain r2 w2 where h: "handler x (baseline m d) d w1 = (r2, w2)" by (cases "handler x (baseline m d) d w1")
    have hw: "extends w1 w2" "fired w1 w2 = []" "posted w1 w2 = []"
      using handler_world [of w1 x "baseline m d" d] h by simp_all
    have w': "snd (snd (execute e m w d)) = w2"
      using Pair Inl h by (simp add: execute_def Let_def split: sum.splits)
    show ?thesis unfolding w' using Pair
      by (simp add: extends_trans [OF ext hw(1)] fired_trans [OF ext hw(1)] posted_trans [OF ext hw(1)] hw)
  qed
qed

subsection \<open>The power rule on numeric samples\<close>

lemma f_lt_asym: "f_lt x y \<Longrightarrow> \<not> f_lt y x"
  by (cases x; cases y) simp_all

lemma f_eq_not_lt: "f_eq x y \<Longrightarrow> \<not> f_lt x y \<and> \<not> f_lt y x"
  by (cases x; cases y) simp_all

lemma py_lt_not_gt: "py_lt a d = Inr True \<Longrightarrow> py_gt a d \<noteq> Inr True"
  by (auto simp: py_lt_def py_gt_def split: option.splits dest: f_lt_asym)

lemma py_eq_not_lt: "py_eq a d \<Longrightarrow> py_lt a d \<noteq> Inr True \<and> py_gt a d \<noteq> Inr True"
  by (auto simp: py_eq_def py_lt_def py_gt_def split: option.splits dest: f_eq_not_lt)

lemma power_values_sample:
  assumes "sample_power ar s = Some pn" "sample_power ar p = Some pp" "previous_data m = Some p"
  shows "power_values ar m (Some s) = Inr (pn, pp)"
proof -
  from assms(1) obtain a b where s: "s ''adc_vl_f'' = Some a" "s ''adc_il_f'' = Some b"
    "py_mul ar a b = Inr pn"
    by (auto simp: sample_power_def split: option.splits sum.splits)
  from assms(2) obtain a' b' where p: "p ''adc_vl_f'' = Some a'" "p ''adc_il_f'' = Some b'"
    "py_mul ar a' b' = Inr pp"
    by (auto simp: sample_power_def split: option.splits sum.splits)
  show ?thesis
    using s p assms(3) by (simp add: power_values_def now_then_def subscript_def)
qed

lemma power_test_True:
  "(power_test delim pn pp = Inr True) = (py_lt pn delim = Inr True \<and> py_gt pp delim = Inr True)"
  by (auto simp: power_test_def split: sum.splits)

lemma power_events_sample:
  assumes "sample_power ar s = Some pn" "sample_power ar p = Some pp" "previous_data m = Some p"
  shows "power_events ar m (Some s) =
     (if py_lt pn (power_delim m) = Inr True \<and> py_gt pp (power_delim m) = Inr True \<and>
         power_format ar pn pp = Inr ()
      then [PowerDropped pp pn] else [])"
proof -
  have v: "power_values ar m (Some s) = Inr (pn, pp)" by (rule power_values_sample [OF assms])
  show ?thesis
  proof (cases "power_test (power_delim m) pn pp")
    case (Inl x)
    then show ?thesis
      using v power_test_True [of "power_delim m" pn pp] by (auto simp: power_events_def)
  next
    case (Inr c)
    then show ?thesis
      using v power_test_True [of "power_delim m" pn pp]
      by (cases c; cases "power_format ar pn pp") (auto simp: power_events_def)
  qed
qed

lemma power_events_shape:
  "power_events ar m d = [] \<or> (\<exists>a b. power_events ar m d = [PowerDropped a b])"
proof (cases "power_values ar m d")
  case (Inl x)
  then show ?thesis by (simp add: power_events_def)
next
  case (Inr v)
  obtain a b where v: "v = (a, b)" by (cases v)
  show ?thesis
  proof (cases "power_test (power_delim m) a b")
    case (Inl x)
    then show ?thesis using Inr v by (simp add: power_events_def)
  next
    case t: (Inr c)
    show ?thesis
      using Inr v t by (cases c; cases "power_format ar a b") (simp_all add: power_events_def)
  qed
qed

lemma power_events_all: "filter is_power_drop (power_events ar m d) = power_events ar m d"
  using power_events_shape [of ar m d] by auto

lemma comm_events_no_power: "filter is_power_drop (comm_events m d) = []"
  by (simp add: comm_events_def split: sum.splits prod.splits)

lemma led_events_no_power: "filter is_power_drop (led_events m d) = []"
  by (simp add: led_events_def split: sum.splits prod.splits)

lemma rules_power_drops:
  "filter is_power_drop (fired w (snd (rules e m d w))) = power_events (floats e) m d"
  by (simp add: rules_fired power_events_all comm_events_no_power led_events_no_power)

lemma execute_power_drops:
  "power_drops w (snd (snd (execute e m w d))) = length (power_events (floats e) (baseline m d) d)"
  using execute_world [of w e m d] by (simp add: power_drops_def rules_power_drops)

lemma frames_filter:
  "filter (\<lambda>f. is_power_drop (snd f)) (frames e m xs) = frames e m (filter is_power_drop xs)"
  by (simp add: frames_def construct_message_def filter_map comp_def)

lemma execute_power_posts:
  "power_posts w (snd (snd (execute e m w d))) =
     (if sender m = None then 0 else length (power_events (floats e) (baseline m d) d))"
proof -
  have s: "sender (baseline m d) = sender m" by (simp add: baseline_def)
  have "filter (\<lambda>f. is_power_drop (snd f)) (posted w (snd (rules e (baseline m d) d w)))
      = frames e (baseline m d) (power_events (floats e) (baseline m d) d)"
    unfolding rules_posted frames_filter
    by (simp add: power_events_all comm_events_no_power led_events_no_power)
  then show ?thesis using execute_world [of w e m d] s by (simp add: power_posts_def frames_def)
qed

subsection \<open>Returning and raising\<close>

text \<open>The \<^verbatim>\<open>except\<close> block raises only when the input or the previous sample is \<^verbatim>\<open>None\<close>.\<close>

lemma handler_Some:
  "previous_data m \<noteq> None \<Longrightarrow> fst (handler x m (Some s) w) = Inr ()"
  by (auto simp: handler_def dump_data_def Let_def)

lemma execute_Some:
  "fst (execute e m w (Some s)) = Inr (Some s)"
  "previous_data (fst (snd (execute e m w (Some s)))) = Some s"
  "power_delim (fst (snd (execute e m w (Some s)))) = power_delim m"
  "sender (fst (snd (execute e m w (Some s)))) = sender m"
proof -
  define m1 where "m1 = baseline m (Some s)"
  have b: "previous_data m1 \<noteq> None" "power_delim m1 = power_delim m" "sender m1 = sender m"
    by (simp_all add: m1_def baseline_def)
  obtain r w1 where r: "rules e m1 (Some s) w = (r, w1)" by (cases "rules e m1 (Some s) w")
  have "fst (execute e m w (Some s)) = Inr (Some s) \<and>
        fst (snd (execute e m w (Some s))) = m1\<lparr>previous_data := Some s\<rparr>"
  proof (cases r)
    case (Inr u)
    then show ?thesis using r by (simp add: execute_def m1_def [symmetric])
  next
    case (Inl x)
    obtain w2 where "handler x m1 (Some s) w1 = (Inr (), w2)"
      using handler_Some [OF b(1), of x s w1] by (cases "handler x m1 (Some s) w1") auto
    then show ?thesis using r Inl by (simp add: execute_def m1_def [symmetric])
  qed
  then show "fst (execute e m w (Some s)) = Inr (Some s)"
    "previous_data (fst (snd (execute e m w (Some s)))) = Some s"
    "power_delim (fst (snd (execute e m w (Some s)))) = power_delim m"
    "sender (fst (snd (execute e m w (Some s)))) = sender m"
    using b by simp_all
qed

lemma execute_None: "fst (execute e m w None) = Inl AttributeError"
  by (simp add: execute_def rules_def power_rule_def power_values_def now_then_def subscript_def
      handler_def dump_data_def Let_def baseline_def)

subsection \<open>The first tick\<close>

text \<open>When the previous sample is the input itself, every rule compares a value with
  itself.\<close>

lemma now_then_same: "now_then d d k = Inr (a, b) \<Longrightarrow> a = b"
  by (auto simp: now_then_def split: sum.splits)

lemma power_test_same: "power_test delim v v \<noteq> Inr True"
  using py_lt_not_gt [of v delim] by (simp add: power_test_True)

lemma f_eq_refl: "f_lt y x \<or> f_eq x y \<Longrightarrow> f_eq x x"
  by (cases x; cases y) simp_all

lemma led_test_same: "led_test v v \<noteq> Inr True"
proof (cases "num_of v")
  case None
  then show ?thesis by (simp add: led_test_def py_ge_def)
next
  case (Some x)
  then show ?thesis
    using f_eq_refl [of "Fin 12" x]
    by (auto simp: led_test_def py_ge_def py_ne_def py_eq_def)
qed

lemma power_values_same:
  "previous_data m = d \<Longrightarrow> power_values ar m d = Inr (a, b) \<Longrightarrow> a = b"
  by (auto simp: power_values_def split: sum.splits dest!: now_then_same)

lemma power_events_same:
  assumes "previous_data m = d"
  shows "power_events ar m d = []"
proof (cases "power_values ar m d")
  case (Inl x)
  then show ?thesis by (simp add: power_events_def)
next
  case (Inr v)
  obtain a b where v: "v = (a, b)" by (cases v)
  have "a = b" using power_values_same [OF assms] Inr v by simp
  then show ?thesis using Inr v power_test_same [of "power_delim m" b]
    by (auto simp: power_events_def split: sum.splits)
qed

lemma comm_events_same: "previous_data m = d \<Longrightarrow> comm_events m d = []"
  by (auto simp: comm_events_def split: sum.splits dest!: now_then_same)

lemma led_events_same:
  assumes "previous_data m = d"
  shows "led_events m d = []"
proof (cases "now_then d (previous_data m) ''led_state''")
  case (Inl x)
  then show ?thesis by (simp add: led_events_def)
next
  case (Inr v)
  obtain a b where v: "v = (a, b)" by (cases v)
  have "a = b" using now_then_same [of d "''led_state''" a b] Inr v assms by simp
  then show ?thesis using Inr v led_test_same [of b]
    by (auto simp: led_events_def split: sum.splits)
qed

lemma first_tick_quiet:
  assumes "previous_data m = None"
  shows "fired w (snd (snd (execute e m w d))) = []" "posted w (snd (snd (execute e m w d))) = []"
proof -
  have b: "previous_data (baseline m d) = d" using assms by (simp add: baseline_def)
  show "fired w (snd (snd (execute e m w d))) = []" "posted w (snd (snd (execute e m w d))) = []"
    using execute_world [of w e m d]
    by (simp_all add: rules_fired rules_posted power_events_same [OF b] comm_events_same [OF b]
        led_events_same [OF b] frames_Nil)
qed

subsection \<open>Consecutive ticks\<close>







subsection \<open>The claims about the power rule, the baseline and the first tick\<close>

lemmas sample_simps = sample_a_def sample_b_def sample_c_def sample_power_def py_mul_def

lemmas arith_simps = plain_arith_def round52_arith_def int_to_float_def round52_def round_def

lemmas tick_simps = execute_def baseline_def rules_def power_rule_def comm_rule_def led_rule_def
  power_values_def power_test_def led_test_def now_then_def subscript_def notify_def
  send_message_def construct_message_def send_def info_def handler_def dump_data_def
  power_format_def py_mul_def py_lt_def py_gt_def py_ge_def py_ne_def py_eq_def Let_def
  plain_arith_def int_to_float_def
  fired_def posted_def power_drops_def power_posts_def
  env_ok_def env_down_def always_ok_def first_raises_def world0_def slack1_def monitor_a_def

lemma baseline_prev: "previous_data (baseline m (Some s)) = Some (prev_sample m s)"
  by (simp add: baseline_def prev_sample_def split: option.splits)

lemma baseline_keeps: "power_delim (baseline m d) = power_delim m" "sender (baseline m d) = sender m"
  by (simp_all add: baseline_def)



text \<open>
  Claim C10. Both comparisons of the power-drop rule are strict: when the power the code
  computes for the current sample, or the one it computes for the previous sample, equals
  \<^verbatim>\<open>power_delim\<close> (Python's \<^verbatim>\<open>==\<close>), the tick logs and sends no power-drop message. The
  power is the product as the float arithmetic returns it, so this covers a product that
  is rounded onto the threshold.
\<close>

theorem power_drop_strict:
  "sample_power (floats e) s = Some pn \<Longrightarrow>
   sample_power (floats e) (prev_sample m s) = Some pp \<Longrightarrow>
   py_eq pn (power_delim m) \<or> py_eq pp (power_delim m) \<Longrightarrow>
     power_drops w (snd (snd (execute e m w (Some s)))) = 0 \<and>
     power_posts w (snd (snd (execute e m w (Some s)))) = 0"
proof -
  assume a: "sample_power (floats e) s = Some pn"
    "sample_power (floats e) (prev_sample m s) = Some pp"
    and eq: "py_eq pn (power_delim m) \<or> py_eq pp (power_delim m)"
  have "\<not> (py_lt pn (power_delim m) = Inr True \<and> py_gt pp (power_delim m) = Inr True)"
    using eq py_eq_not_lt [of pn "power_delim m"] py_eq_not_lt [of pp "power_delim m"] by blast
  then have n: "length (power_events (floats e) (baseline m (Some s)) (Some s)) = 0"
    using power_events_sample [of "floats e" s pn "prev_sample m s" pp "baseline m (Some s)"] a
    by (auto simp: baseline_prev baseline_keeps)
  show ?thesis by (simp only: execute_power_drops execute_power_posts n) simp
qed

theorem power_drop_strict_witness:
  "sample_power (floats env_ok) sample_on = Some (PFloat (Fin 1)) \<and>
   sample_power (floats env_ok) (prev_sample monitor_a sample_on) = Some (PFloat (Fin 2)) \<and>
   py_eq (PFloat (Fin 1)) (power_delim monitor_a) \<and>
   power_drops world0 (snd (snd (execute env_ok monitor_a world0 (Some sample_on)))) = 0 \<and>
   power_posts world0 (snd (snd (execute env_ok monitor_a world0 (Some sample_on)))) = 0 \<and>
   sample_power (floats env_round) sample_b = Some (PFloat (Fin 0.5)) \<and>
   sample_power (floats env_round) (prev_sample monitor_r sample_b) = Some (PFloat (Fin 1)) \<and>
   py_eq (PFloat (Fin 1)) (power_delim monitor_r) \<and>
   power_drops world0 (snd (snd (execute env_round monitor_r world0 (Some sample_b)))) = 0 \<and>
   power_posts world0 (snd (snd (execute env_round monitor_r world0 (Some sample_b)))) = 0"
proof -
  have h: "sample_power (floats env_ok) sample_on = Some (PFloat (Fin 1))"
    "sample_power (floats env_ok) (prev_sample monitor_a sample_on) = Some (PFloat (Fin 2))"
    by (simp_all add: sample_simps arith_simps sample_on_def prev_sample_def monitor_a_def
        env_ok_def)
  have q: "py_eq (PFloat (Fin 1)) (power_delim monitor_a) \<or>
      py_eq (PFloat (Fin 2)) (power_delim monitor_a)"
    by (simp add: py_eq_def monitor_a_def)
  have h': "sample_power (floats env_round) sample_b = Some (PFloat (Fin 0.5))"
    "sample_power (floats env_round) (prev_sample monitor_r sample_b) = Some (PFloat (Fin 1))"
    by (simp_all add: sample_simps arith_simps sample_r_def tenth_def prev_sample_def
        monitor_r_def env_round_def)
  have q': "py_eq (PFloat (Fin 0.5)) (power_delim monitor_r) \<or>
      py_eq (PFloat (Fin 1)) (power_delim monitor_r)"
    by (simp add: py_eq_def monitor_r_def)
  have e: "py_eq (PFloat (Fin 1)) (power_delim monitor_a)"
    "py_eq (PFloat (Fin 1)) (power_delim monitor_r)"
    by (simp_all add: py_eq_def monitor_a_def monitor_r_def)
  show ?thesis
    using power_drop_strict [OF h q, of world0] power_drop_strict [OF h' q', of world0] h h' e
    by simp
qed

text \<open>A tick that returns leaves its input as the stored previous sample, and a tick
  whose input is a mapping always returns, also when a rule raised.\<close>

lemma previous_data_after_returning_tick:
  "(execute e m w d = (Inr r, m', w') \<longrightarrow> previous_data m' = d \<and> r = d) \<and>
   fst (execute e m w (Some s)) = Inr (Some s) \<and>
   previous_data (fst (snd (execute e m w (Some s)))) = Some s"
proof (intro conjI impI)
  assume x: "execute e m w d = (Inr r, m', w')"
  show "previous_data m' = d"
  proof (cases d)
    case None
    then show ?thesis using execute_None [of e m w] x by simp
  next
    case (Some s')
    then show ?thesis using execute_Some(2) [of e m w s'] x by simp
  qed
  show "r = d"
  proof (cases d)
    case None
    then show ?thesis using execute_None [of e m w] x by simp
  next
    case (Some s')
    then show ?thesis using execute_Some(1) [of e m w s'] x by simp
  qed
qed (simp_all add: execute_Some)

lemmas bare_simps = bare_pre_def bare_now_def monitor_bare_def world_bare_def

lemma tick_with_caught_error:
  "execute env_ok monitor_bare world0 (Some bare_now) =
     (Inr (Some bare_now), monitor_bare\<lparr>previous_data := Some bare_now\<rparr>, world_bare)"
  by (simp add: tick_simps bare_simps)

text \<open>
  Claim C2. The stored previous sample is not the input after every tick: on a tick whose
  input is \<^verbatim>\<open>None\<close> the exception that leaves the \<^verbatim>\<open>except\<close> block skips line 152, and a
  monitor whose previous sample is \<open>sample_a\<close> still holds \<open>sample_a\<close> afterwards.
\<close>

theorem previous_data_stale_after_None:
  "execute env_ok monitor_a world0 None =
     (Inl AttributeError, monitor_a,
      \<lparr>log = [Error_evaluating TypeError, Info_error_details], requests = []\<rparr>) \<and>
   previous_data monitor_a = Some sample_a"
  by (simp add: execute_def rules_def power_rule_def power_values_def now_then_def subscript_def
      handler_def dump_data_def Let_def info_def baseline_def monitor_a_def world0_def)

text \<open>
  Claim C3. On the first tick (no previous sample stored) no rule logs a message and
  nothing is handed to the sender, whatever the input is; the tick leaves the input as the
  stored previous sample.
\<close>

theorem first_tick_fires_nothing:
  "previous_data m = None \<Longrightarrow>
     fired w (snd (snd (execute e m w d))) = [] \<and>
     posted w (snd (snd (execute e m w d))) = [] \<and>
     previous_data (fst (snd (execute e m w d))) = d"
proof (intro conjI)
  assume a: "previous_data m = None"
  show "fired w (snd (snd (execute e m w d))) = []" by (rule first_tick_quiet(1) [OF a])
  show "posted w (snd (snd (execute e m w d))) = []" by (rule first_tick_quiet(2) [OF a])
  show "previous_data (fst (snd (execute e m w d))) = d"
    using a by (auto simp: execute_def baseline_def Let_def split: prod.splits sum.splits)
qed

theorem first_tick_fires_nothing_witness:
  "previous_data monitor_new = None \<and>
   fired world0 (snd (snd (execute env_ok monitor_new world0 (Some sample_b)))) = [] \<and>
   posted world0 (snd (snd (execute env_ok monitor_new world0 (Some sample_b)))) = [] \<and>
   previous_data (fst (snd (execute env_ok monitor_new world0 (Some sample_b)))) = Some sample_b"
proof -
  have h: "previous_data monitor_new = None" by (simp add: monitor_new_def init_def)
  show ?thesis using first_tick_fires_nothing [OF h, of world0 env_ok "Some sample_b"] h by simp
qed

text \<open>
  Claim C8. With the documented default input \<^verbatim>\<open>None\<close> the first subscript raises
  \<^verbatim>\<open>TypeError\<close>, the \<^verbatim>\<open>except\<close> block logs it and then calls \<^verbatim>\<open>input_data.items()\<close>,
  which raises \<^verbatim>\<open>AttributeError\<close> out of \<^verbatim>\<open>execute\<close>: nothing is returned and line 152
  is not reached.
\<close>

theorem execute_None_raises:
  "execute e m w None =
     (Inl AttributeError, baseline m None,
      w\<lparr>log := log w @ [Error_evaluating TypeError, Info_error_details]\<rparr>)"
  by (simp add: execute_def rules_def power_rule_def power_values_def now_then_def subscript_def
      handler_def dump_data_def Let_def info_def)

subsection \<open>Rules that raise\<close>





lemma execute_after_power_raise:
  assumes "isl (fst (power_rule e (baseline m d) d w))"
  shows "fired w (snd (snd (execute e m w d))) = fired w (snd (power_rule e (baseline m d) d w))"
    and "posted w (snd (snd (execute e m w d))) = posted w (snd (power_rule e (baseline m d) d w))"
  using assms execute_world [of w e m d] by (simp_all add: rules_unfold Let_def)

lemma execute_after_comm_raise:
  assumes "\<not> isl (fst (power_rule e (baseline m d) d w))"
    "isl (fst (comm_rule e (baseline m d) d (snd (power_rule e (baseline m d) d w))))"
  shows "fired w (snd (snd (execute e m w d)))
       = fired w (snd (comm_rule e (baseline m d) d (snd (power_rule e (baseline m d) d w))))"
    and "posted w (snd (snd (execute e m w d)))
       = posted w (snd (comm_rule e (baseline m d) d (snd (power_rule e (baseline m d) d w))))"
  using assms execute_world [of w e m d] by (simp_all add: rules_unfold Let_def)

lemma execute_error_log:
  assumes "isl (fst (rules e (baseline m (Some s)) (Some s) w))"
  shows "log (snd (snd (execute e m w (Some s)))) =
     log (snd (rules e (baseline m (Some s)) (Some s) w)) @
       [Error_evaluating (projl (fst (rules e (baseline m (Some s)) (Some s) w))),
        Info_error_details, Info_data ''Current'' s, Info_data ''Previous'' (prev_sample m s)]"
proof -
  obtain r w1 where r: "rules e (baseline m (Some s)) (Some s) w = (r, w1)"
    by (cases "rules e (baseline m (Some s)) (Some s) w")
  then obtain x where x: "r = Inl x" using assms by (cases r) auto
  show ?thesis using r x
    by (simp add: execute_def handler_def dump_data_def info_def Let_def baseline_prev)
qed

lemma comm_events_present:
  "d ''ping'' = Some cn \<Longrightarrow> p ''ping'' = Some cp \<Longrightarrow> previous_data m = Some p \<Longrightarrow>
     comm_events m (Some d) = (if truthy cn \<and> \<not> truthy cp then [NoCommunication] else [])"
  by (simp add: comm_events_def now_then_def subscript_def)

lemma led_events_present:
  "d ''led_state'' = Some vn \<Longrightarrow> p ''led_state'' = Some vp \<Longrightarrow> previous_data m = Some p \<Longrightarrow>
     led_events m (Some d) =
       (if py_ge vn (PInt 12) = Inr True \<and> py_ne vn vp then [CriticalFailure vn] else [])"
  by (auto simp: led_events_def led_test_def now_then_def subscript_def split: sum.splits)

lemma power_events_no_comm: "count_list (power_events ar m d) NoCommunication = 0"
  using power_events_shape [of ar m d] by auto

lemma led_events_no_comm: "count_list (led_events m d) NoCommunication = 0"
  by (simp add: led_events_def split: sum.splits prod.splits)

lemma power_events_no_critical: "filter is_critical (power_events ar m d) = []"
  using power_events_shape [of ar m d] by auto

lemma comm_events_no_critical: "filter is_critical (comm_events m d) = []"
  by (simp add: comm_events_def split: sum.splits prod.splits)

lemma count_list_frames:
  "count_list (frames e m xs) (construct_message e msg) =
     (if sender m = None then 0 else count_list xs msg)"
  by (induction xs) (auto simp: frames_def construct_message_def)

lemma frames_filter_critical:
  "filter (\<lambda>f. is_critical (snd f)) (frames e m xs) = frames e m (filter is_critical xs)"
  by (simp add: frames_def construct_message_def filter_map comp_def)

text \<open>
  Both samples hold \<^verbatim>\<open>ping\<close>, it goes from 0 to 1, and nothing is logged: the samples lack
  \<^verbatim>\<open>adc_vl_f\<close>, the power rule raises \<^verbatim>\<open>KeyError\<close> and the \<^verbatim>\<open>try\<close> block is left before
  the ping is looked at.
\<close>

theorem comm_loss_needs_power_fields:
  "ping_now ''ping'' = Some (PInt 1) \<and> ping_pre ''ping'' = Some (PInt 0) \<and>
   previous_data monitor_ping = Some ping_pre \<and> truthy (PInt 1) \<and> \<not> truthy (PInt 0) \<and>
   count_list (fired world0 (snd (snd (execute env_ok monitor_ping world0 (Some ping_now)))))
     NoCommunication = 0"
  by (simp add: tick_simps ping_now_def ping_pre_def monitor_ping_def)

text \<open>
  Claim C4, amended. On a tick on which the power rule before it did not raise and both
  samples hold \<^verbatim>\<open>ping\<close>, the communication-loss message is logged exactly when the current
  ping is truthy and the previous one is not, and it is handed to the sender exactly then
  when a sender is set.
\<close>

theorem comm_loss_rule:
  assumes "\<not> isl (fst (power_rule e (baseline m (Some s)) (Some s) w))"
    and "s ''ping'' = Some cn" and "prev_sample m s ''ping'' = Some cp"
  shows "count_list (fired w (snd (snd (execute e m w (Some s))))) NoCommunication =
           (if truthy cn \<and> \<not> truthy cp then 1 else 0) \<and>
         count_list (posted w (snd (snd (execute e m w (Some s)))))
             (construct_message e NoCommunication) =
           (if truthy cn \<and> \<not> truthy cp \<and> sender m \<noteq> None then 1 else 0)"
proof -
  have c: "comm_events (baseline m (Some s)) (Some s) =
      (if truthy cn \<and> \<not> truthy cp then [NoCommunication] else [])"
    using comm_events_present [of s cn "prev_sample m s" cp "baseline m (Some s)"] assms(2,3)
    by (simp add: baseline_prev)
  have f: "fired w (snd (snd (execute e m w (Some s)))) =
      fired w (snd (rules e (baseline m (Some s)) (Some s) w))"
    and p: "posted w (snd (snd (execute e m w (Some s)))) =
      posted w (snd (rules e (baseline m (Some s)) (Some s) w))"
    using execute_world [of w e m "Some s"] by simp_all
  show ?thesis
    unfolding f p rules_fired rules_posted
    using assms(1)
    by (simp add: c count_list_frames power_events_no_comm led_events_no_comm baseline_keeps)
qed

theorem comm_loss_rule_witness:
  "\<not> isl (fst (power_rule env_ok (baseline monitor_a (Some sample_b)) (Some sample_b) world0)) \<and>
   sample_b ''ping'' = Some (PInt 1) \<and> prev_sample monitor_a sample_b ''ping'' = Some (PInt 0) \<and>
   count_list (fired world0 (snd (snd (execute env_ok monitor_a world0 (Some sample_b)))))
     NoCommunication = 1 \<and>
   count_list (posted world0 (snd (snd (execute env_ok monitor_a world0 (Some sample_b)))))
     (construct_message env_ok NoCommunication) = 1"
proof -
  have h: "\<not> isl (fst (power_rule env_ok (baseline monitor_a (Some sample_b)) (Some sample_b) world0))"
    "sample_b ''ping'' = Some (PInt 1)" "prev_sample monitor_a sample_b ''ping'' = Some (PInt 0)"
    by (simp_all add: tick_simps sample_simps prev_sample_def)
  have s: "sender monitor_a \<noteq> None" by (simp add: monitor_a_def)
  show ?thesis using comm_loss_rule [OF h] h s by simp
qed

text \<open>
  Both samples hold \<^verbatim>\<open>led_state\<close>, it goes from 5 to 12, and nothing is logged: the
  samples lack \<^verbatim>\<open>ping\<close>, so the rule before raises \<^verbatim>\<open>KeyError\<close>.
\<close>

theorem led_state_needs_ping:
  "led_now ''led_state'' = Some (PInt 12) \<and> led_pre ''led_state'' = Some (PInt 5) \<and>
   previous_data monitor_led = Some led_pre \<and>
   py_ge (PInt 12) (PInt 12) = Inr True \<and> py_ne (PInt 12) (PInt 5) \<and>
   filter is_critical (fired world0 (snd (snd (execute env_ok monitor_led world0 (Some led_now))))) = []"
  by (simp add: tick_simps led_now_def led_pre_def monitor_led_def)

text \<open>
  Claim C5, amended. On a tick on which the two rules before it did not raise and both
  samples hold \<^verbatim>\<open>led_state\<close>, the critical-failure message is logged exactly when
  \<open>state_now >= 12\<close> holds and \<open>state_now != state_pre\<close>, with the current state in the
  message, and it is handed to the sender exactly then when a sender is set.
\<close>

theorem led_state_rule:
  assumes "\<not> isl (fst (power_rule e (baseline m (Some s)) (Some s) w))"
    and "\<not> isl (fst (comm_rule e (baseline m (Some s)) (Some s)
                  (snd (power_rule e (baseline m (Some s)) (Some s) w))))"
    and "s ''led_state'' = Some vn" and "prev_sample m s ''led_state'' = Some vp"
  shows "filter is_critical (fired w (snd (snd (execute e m w (Some s))))) =
           (if py_ge vn (PInt 12) = Inr True \<and> py_ne vn vp then [CriticalFailure vn] else []) \<and>
         filter (\<lambda>f. is_critical (snd f)) (posted w (snd (snd (execute e m w (Some s))))) =
           (if py_ge vn (PInt 12) = Inr True \<and> py_ne vn vp \<and> sender m \<noteq> None
            then [construct_message e (CriticalFailure vn)] else [])"
proof -
  have c: "led_events (baseline m (Some s)) (Some s) =
      (if py_ge vn (PInt 12) = Inr True \<and> py_ne vn vp then [CriticalFailure vn] else [])"
    using led_events_present [of s vn "prev_sample m s" vp "baseline m (Some s)"] assms(3,4)
    by (simp add: baseline_prev)
  have f: "fired w (snd (snd (execute e m w (Some s)))) =
      fired w (snd (rules e (baseline m (Some s)) (Some s) w))"
    and p: "posted w (snd (snd (execute e m w (Some s)))) =
      posted w (snd (rules e (baseline m (Some s)) (Some s) w))"
    using execute_world [of w e m "Some s"] by simp_all
  show ?thesis
    unfolding f p rules_fired rules_posted frames_filter_critical
    using assms(1,2)
    by (simp add: c power_events_no_critical comm_events_no_critical frames_def baseline_keeps)
qed

theorem led_state_rule_witness:
  "\<not> isl (fst (power_rule env_ok (baseline monitor_a (Some sample_b)) (Some sample_b) world0)) \<and>
   \<not> isl (fst (comm_rule env_ok (baseline monitor_a (Some sample_b)) (Some sample_b)
       (snd (power_rule env_ok (baseline monitor_a (Some sample_b)) (Some sample_b) world0)))) \<and>
   sample_b ''led_state'' = Some (PInt 12) \<and>
   prev_sample monitor_a sample_b ''led_state'' = Some (PInt 5) \<and>
   filter is_critical (fired world0 (snd (snd (execute env_ok monitor_a world0 (Some sample_b))))) =
     [CriticalFailure (PInt 12)] \<and>
   filter (\<lambda>f. is_critical (snd f))
       (posted world0 (snd (snd (execute env_ok monitor_a world0 (Some sample_b))))) =
     [construct_message env_ok (CriticalFailure (PInt 12))]"
proof -
  have h: "\<not> isl (fst (power_rule env_ok (baseline monitor_a (Some sample_b)) (Some sample_b) world0))"
    "\<not> isl (fst (comm_rule env_ok (baseline monitor_a (Some sample_b)) (Some sample_b)
       (snd (power_rule env_ok (baseline monitor_a (Some sample_b)) (Some sample_b) world0))))"
    "sample_b ''led_state'' = Some (PInt 12)"
    "prev_sample monitor_a sample_b ''led_state'' = Some (PInt 5)"
    by (simp_all add: tick_simps sample_simps prev_sample_def)
  have s: "sender monitor_a \<noteq> None" by (simp add: monitor_a_def)
  have c: "py_ge (PInt 12) (PInt 12) = Inr True \<and> py_ne (PInt 12) (PInt 5)"
    by (simp add: py_ge_def py_ne_def py_eq_def)
  show ?thesis using led_state_rule [OF h] h s c by simp
qed


text \<open>
  The power rule raises \<^verbatim>\<open>KeyError\<close>; the other two rules, run on their own on the same
  tick, would each log their message, and the tick logs none.
\<close>

theorem rules_not_isolated:
  "fst (power_rule env_ok monitor_bare (Some bare_now) world0) = Inl (KeyError ''adc_vl_f'') \<and>
   fired world0 (snd (comm_rule env_ok monitor_bare (Some bare_now) world0)) = [NoCommunication] \<and>
   fired world0 (snd (led_rule env_ok monitor_bare (Some bare_now) world0)) =
     [CriticalFailure (PInt 12)] \<and>
   fired world0 (snd (snd (execute env_ok monitor_bare world0 (Some bare_now)))) = []"
  by (simp add: tick_simps bare_simps)

text \<open>
  Claim C6, amended. The rules share one \<^verbatim>\<open>try\<close> block: the first rule that raises ends
  the evaluation of the tick, so what the tick logs and sends is what the rules up to and
  including that one logged and sent. For an input that is a mapping no exception leaves
  \<^verbatim>\<open>execute\<close>: the exception is logged with the current and the previous sample and the
  input is returned.
\<close>

theorem tick_fault_isolation:
  "let m1 = baseline m (Some s);
       r1 = power_rule e m1 (Some s) w;
       r2 = comm_rule e m1 (Some s) (snd r1);
       r = rules e m1 (Some s) w;
       w' = snd (snd (execute e m w (Some s)))
   in fst (execute e m w (Some s)) = Inr (Some s) \<and>
      (isl (fst r1) \<longrightarrow> fired w w' = fired w (snd r1) \<and> posted w w' = posted w (snd r1)) \<and>
      (\<not> isl (fst r1) \<and> isl (fst r2) \<longrightarrow>
         fired w w' = fired w (snd r2) \<and> posted w w' = posted w (snd r2)) \<and>
      (isl (fst r) \<longrightarrow>
         log w' = log (snd r) @ [Error_evaluating (projl (fst r)), Info_error_details,
           Info_data ''Current'' s, Info_data ''Previous'' (prev_sample m s)])"
  unfolding Let_def
proof (intro conjI impI)
  show "fst (execute e m w (Some s)) = Inr (Some s)" by (rule execute_Some(1))
next
  assume a: "isl (fst (power_rule e (baseline m (Some s)) (Some s) w))"
  show "fired w (snd (snd (execute e m w (Some s)))) =
        fired w (snd (power_rule e (baseline m (Some s)) (Some s) w))"
    by (rule execute_after_power_raise(1) [OF a])
  show "posted w (snd (snd (execute e m w (Some s)))) =
        posted w (snd (power_rule e (baseline m (Some s)) (Some s) w))"
    by (rule execute_after_power_raise(2) [OF a])
next
  assume a: "\<not> isl (fst (power_rule e (baseline m (Some s)) (Some s) w)) \<and>
    isl (fst (comm_rule e (baseline m (Some s)) (Some s)
          (snd (power_rule e (baseline m (Some s)) (Some s) w))))"
  show "fired w (snd (snd (execute e m w (Some s)))) =
        fired w (snd (comm_rule e (baseline m (Some s)) (Some s)
          (snd (power_rule e (baseline m (Some s)) (Some s) w))))"
    using execute_after_comm_raise(1) a by blast
  show "posted w (snd (snd (execute e m w (Some s)))) =
        posted w (snd (comm_rule e (baseline m (Some s)) (Some s)
          (snd (power_rule e (baseline m (Some s)) (Some s) w))))"
    using execute_after_comm_raise(2) a by blast
next
  assume a: "isl (fst (rules e (baseline m (Some s)) (Some s) w))"
  show "log (snd (snd (execute e m w (Some s)))) =
     log (snd (rules e (baseline m (Some s)) (Some s) w)) @
       [Error_evaluating (projl (fst (rules e (baseline m (Some s)) (Some s) w))),
        Info_error_details, Info_data ''Current'' s, Info_data ''Previous'' (prev_sample m s)]"
    by (rule execute_error_log [OF a])
qed

theorem tick_fault_isolation_witness:
  "isl (fst (power_rule env_ok (baseline monitor_bare (Some bare_now)) (Some bare_now) world0)) \<and>
   isl (fst (rules env_ok (baseline monitor_bare (Some bare_now)) (Some bare_now) world0)) \<and>
   fst (execute env_ok monitor_bare world0 (Some bare_now)) = Inr (Some bare_now) \<and>
   fired world0 (snd (snd (execute env_ok monitor_bare world0 (Some bare_now)))) = [] \<and>
   posted world0 (snd (snd (execute env_ok monitor_bare world0 (Some bare_now)))) = [] \<and>
   log (snd (snd (execute env_ok monitor_bare world0 (Some bare_now)))) =
     [Error_evaluating (KeyError ''adc_vl_f''), Info_error_details,
      Info_data ''Current'' bare_now, Info_data ''Previous'' bare_pre] \<and>
   \<not> isl (fst (power_rule env_ok (baseline monitor_led (Some led_now)) (Some led_now) world0)) \<and>
   isl (fst (comm_rule env_ok (baseline monitor_led (Some led_now)) (Some led_now)
     (snd (power_rule env_ok (baseline monitor_led (Some led_now)) (Some led_now) world0)))) \<and>
   fired world0 (snd (snd (execute env_ok monitor_led world0 (Some led_now)))) = []"
proof -
  have p: "power_rule env_ok (baseline monitor_bare (Some bare_now)) (Some bare_now) world0
      = (Inl (KeyError ''adc_vl_f''), world0)"
    by (simp add: tick_simps bare_simps)
  have r: "rules env_ok (baseline monitor_bare (Some bare_now)) (Some bare_now) world0
      = (Inl (KeyError ''adc_vl_f''), world0)"
    by (simp add: tick_simps bare_simps)
  have q: "prev_sample monitor_bare bare_now = bare_pre"
    by (simp add: prev_sample_def monitor_bare_def)
  have p2: "power_rule env_ok (baseline monitor_led (Some led_now)) (Some led_now) world0
      = (Inr (), world0)"
    by (simp add: tick_simps led_now_def led_pre_def monitor_led_def)
  have c2: "comm_rule env_ok (baseline monitor_led (Some led_now)) (Some led_now) world0
      = (Inl (KeyError ''ping''), world0)"
    by (simp add: tick_simps led_now_def led_pre_def monitor_led_def)
  show ?thesis
    using tick_fault_isolation [of monitor_bare bare_now env_ok world0]
      tick_fault_isolation [of monitor_led led_now env_ok world0]
    by (simp add: Let_def p r q p2 c2 fired_same posted_same) (simp add: world0_def)
qed




text \<open>
  A response with status 201 is a failure for \<^verbatim>\<open>send\<close>: a warning with a logger, a
  \<^verbatim>\<open>RuntimeWarning\<close> without.
\<close>

theorem status_201_is_a_failure:
  "send env_201 slack1 frame0 world0 =
     (Inr (), \<lparr>log = [Warning_send_failed frame0], requests = [frame0]\<rparr>) \<and>
   send env_201 slack_quiet frame0 world0 =
     (Inl (RuntimeWarning frame0), \<lparr>log = [], requests = [frame0]\<rparr>)"
  by (simp add: send_def info_def env_201_def always_201_def slack1_def slack_quiet_def world0_def)

text \<open>
  Claim C9, amended. When \<^verbatim>\<open>urlopen\<close> returns a response, \<^verbatim>\<open>send\<close> has made one request;
  a status other than 200 is logged as a warning when the sender's logger is truthy and
  raised as \<^verbatim>\<open>RuntimeWarning\<close> otherwise; status 200 neither logs nor raises.
\<close>

theorem slack_send_outcome:
  "urlopen e (length (requests w)) = Response status \<Longrightarrow>
     requests (snd (send e sd msg w)) = requests w @ [msg] \<and>
     (status = 200 \<longrightarrow>
        fst (send e sd msg w) = Inr () \<and> log (snd (send e sd msg w)) = log w) \<and>
     (status \<noteq> 200 \<and> logger sd \<longrightarrow>
        fst (send e sd msg w) = Inr () \<and>
        log (snd (send e sd msg w)) = log w @ [Warning_send_failed msg]) \<and>
     (status \<noteq> 200 \<and> \<not> logger sd \<longrightarrow>
        fst (send e sd msg w) = Inl (RuntimeWarning msg) \<and> log (snd (send e sd msg w)) = log w)"
  by (simp add: send_def info_def Let_def)

theorem slack_send_outcome_witness:
  "urlopen env_201 (length (requests world0)) = Response 201 \<and> logger slack1 \<and>
   fst (send env_201 slack1 frame0 world0) = Inr () \<and>
   log (snd (send env_201 slack1 frame0 world0)) = [Warning_send_failed frame0] \<and>
   \<not> logger slack_quiet \<and>
   fst (send env_201 slack_quiet frame0 world0) = Inl (RuntimeWarning frame0) \<and>
   log (snd (send env_201 slack_quiet frame0 world0)) = [] \<and>
   urlopen env_ok (length (requests world0)) = Response 200 \<and>
   fst (send env_ok slack_quiet frame0 world0) = Inr () \<and>
   log (snd (send env_ok slack_quiet frame0 world0)) = [] \<and>
   requests (snd (send env_ok slack_quiet frame0 world0)) = [frame0]"
proof -
  have h1: "urlopen env_201 (length (requests world0)) = Response 201"
    by (simp add: env_201_def always_201_def)
  have h2: "urlopen env_ok (length (requests world0)) = Response 200"
    by (simp add: env_ok_def always_ok_def)
  have l: "logger slack1" "\<not> logger slack_quiet" "log world0 = []" "requests world0 = []"
    by (simp_all add: slack1_def slack_quiet_def world0_def)
  show ?thesis
    using slack_send_outcome [OF h1, of slack1 frame0]
      slack_send_outcome [OF h1, of slack_quiet frame0]
      slack_send_outcome [OF h2, of slack_quiet frame0] h1 h2 l
    by simp
qed

text \<open>The sequences of the specification: ping 0, 0, 1, 1, 0 logs one message, on the
  third tick; LED states 5, 12, 12, 13, 5, 14 log a message on the second, fourth and sixth
  tick.\<close>

lemma ping_sequence:
  "fired world0 (snd (snd (run env_ok monitor_new world0
      (map (\<lambda>v. Some (ping_sample v)) [0, 0])))) = []"
  "fired world0 (snd (snd (run env_ok monitor_new world0
      (map (\<lambda>v. Some (ping_sample v)) [0, 0, 1])))) = [NoCommunication]"
  "fired world0 (snd (snd (run env_ok monitor_new world0
      (map (\<lambda>v. Some (ping_sample v)) [0, 0, 1, 1, 0])))) = [NoCommunication]"
  by (simp_all add: tick_simps ping_sample_def monitor_new_def init_def)

lemma led_sequence:
  "fired world0 (snd (snd (run env_ok monitor_new world0
      (map (\<lambda>v. Some (led_sample v)) [5, 12, 12])))) = [CriticalFailure (PInt 12)]"
  "fired world0 (snd (snd (run env_ok monitor_new world0
      (map (\<lambda>v. Some (led_sample v)) [5, 12, 12, 13, 5])))) =
     [CriticalFailure (PInt 12), CriticalFailure (PInt 13)]"
  "fired world0 (snd (snd (run env_ok monitor_new world0
      (map (\<lambda>v. Some (led_sample v)) [5, 12, 12, 13, 5, 14])))) =
     [CriticalFailure (PInt 12), CriticalFailure (PInt 13), CriticalFailure (PInt 14)]"
  by (simp_all add: tick_simps led_sample_def monitor_new_def init_def)

end
